theory Spec2Isabelle
  imports Complex_Main
begin

section \<open>The host's decimal module\<close>

text \<open>
  The calculator computes on Python's \<^verbatim>\<open>decimal.Decimal\<close>. That type and its operators
  belong to the host's library, not to the repository: the source only writes
  \<^verbatim>\<open>a + b\<close>, \<^verbatim>\<open>a - b\<close>, \<^verbatim>\<open>a * b\<close>, \<^verbatim>\<open>a / b\<close>, \<^verbatim>\<open>b == 0\<close>, \<^verbatim>\<open>Decimal(s)\<close> and formats a
  Decimal in an f-string. The model therefore takes the decimal module, under its
  configured context (precision, rounding, traps), as a parameter \<open>D\<close>: a type \<open>'d\<close> of
  Decimal values and the seven operations the source uses. An operation of the module
  either returns a value or raises one of the module's own exception classes, none of
  which is a \<^verbatim>\<open>ValueError\<close> or an \<^verbatim>\<open>IndexError\<close>.
\<close>

datatype signal =
  Clamped | DivisionByZero | FloatOperation | Inexact | InvalidOperation
  | Overflow | Rounded | Subnormal | Underflow

text \<open>
  The exceptions the program can see. \<open>ValueError\<close> and \<open>IndexError\<close> carry their
  message; \<open>DecimalException\<close> is an exception of the decimal module, with the class
  that was raised and its message. The error kind the specification calls
  "DivisionByZero" is the source's \<^verbatim>\<open>ValueError("Cannot divide by zero")\<close>, not the decimal
  module's signal of that name; "EmptyHistory" is
  \<^verbatim>\<open>IndexError("No calculations in history")\<close>.
\<close>

datatype exn =
  ValueError string
  | IndexError string
  | DecimalException signal string

record 'd decimal_module =
  Decimal :: "string \<Rightarrow> signal \<times> string + 'd"
  add :: "'d \<Rightarrow> 'd \<Rightarrow> signal \<times> string + 'd"
  sub :: "'d \<Rightarrow> 'd \<Rightarrow> signal \<times> string + 'd"
  mul :: "'d \<Rightarrow> 'd \<Rightarrow> signal \<times> string + 'd"
  truediv :: "'d \<Rightarrow> 'd \<Rightarrow> signal \<times> string + 'd"
  eq_zero :: "'d \<Rightarrow> signal \<times> string + bool"
  str :: "'d \<Rightarrow> string"

text \<open>An exception of the decimal module, as the program sees it.\<close>

fun raised :: "signal \<times> string + 'a \<Rightarrow> exn + 'a" where
  "raised (Inl (s, m)) = Inl (DecimalException s m)"
| "raised (Inr v) = Inr v"

section \<open>app/operation\<close>

text \<open>
  The four concrete subclasses of the abstract class \<^verbatim>\<open>Operation\<close>. Their instances
  have no attributes, so an instance is its class.
\<close>

datatype operation = Addition | Subtraction | Multiplication | Division

text \<open>
  \<^verbatim>\<open>execute(self, a, b)\<close>. \<open>Division\<close> first tests \<^verbatim>\<open>b == 0\<close> (a comparison of the
  decimal module, which may itself signal) and raises
  \<^verbatim>\<open>ValueError("Cannot divide by zero")\<close> when it holds. No body reads or assigns an
  attribute or a global: the model has no state argument and returns no state.
\<close>

fun execute :: "'d decimal_module \<Rightarrow> operation \<Rightarrow> 'd \<Rightarrow> 'd \<Rightarrow> exn + 'd" where
  "execute D Addition a b = raised (add D a b)"
| "execute D Subtraction a b = raised (sub D a b)"
| "execute D Multiplication a b = raised (mul D a b)"
| "execute D Division a b =
     (case raised (eq_zero D b) of
        Inl e \<Rightarrow> Inl e
      | Inr True \<Rightarrow> Inl (ValueError ''Cannot divide by zero'')
      | Inr False \<Rightarrow> raised (truediv D a b))"

text \<open>\<^verbatim>\<open>__str__\<close> of an operation: its display token.\<close>

fun operation_str :: "operation \<Rightarrow> string" where
  "operation_str Addition = ''+''"
| "operation_str Subtraction = ''-''"
| "operation_str Multiplication = ''*''"
| "operation_str Division = ''/''"

section \<open>Objects and the world\<close>

text \<open>
  Calculations and lists are objects with identity: the history holds references to
  \<^verbatim>\<open>Calculation\<close> objects in a list object, and \<^verbatim>\<open>get_history\<close> hands out another list
  object. The store keeps both kinds of object, each in a table indexed by address; a
  new object takes the next free address. Besides the store the world has the lines
  printed so far and a ghost counter of how often some \<^verbatim>\<open>operation.execute\<close> has been
  entered, which no code reads.
\<close>

type_synonym ref = nat

record 'd Calculation =
  calc_a :: 'd                  \<comment> \<open>\<^verbatim>\<open>self.a\<close>\<close>
  calc_b :: 'd                  \<comment> \<open>\<^verbatim>\<open>self.b\<close>\<close>
  calc_operation :: operation   \<comment> \<open>\<^verbatim>\<open>self.operation\<close>\<close>
  calc_result :: "'d option"    \<comment> \<open>\<^verbatim>\<open>self._result\<close>, \<open>None\<close> as in the source\<close>

record 'd world =
  calculations :: "'d Calculation list"
  list_objects :: "ref list list"
  execute_calls :: nat
  stdout :: "string list"

definition print :: "string \<Rightarrow> 'd world \<Rightarrow> 'd world" where
  "print line w = w\<lparr>stdout := stdout w @ [line]\<rparr>"

definition new_list :: "ref list \<Rightarrow> 'd world \<Rightarrow> ref \<times> 'd world" where
  "new_list xs w = (length (list_objects w), w\<lparr>list_objects := list_objects w @ [xs]\<rparr>)"

section \<open>app/calculation: Calculation\<close>

text \<open>\<^verbatim>\<open>Calculation.__init__\<close>: a new object with \<^verbatim>\<open>_result = None\<close>.\<close>

definition Calculation_init :: "'d \<Rightarrow> 'd \<Rightarrow> operation \<Rightarrow> 'd world \<Rightarrow> ref \<times> 'd world" where
  "Calculation_init x y opn w =
     (length (calculations w),
      w\<lparr>calculations := calculations w @
         [\<lparr>calc_a = x, calc_b = y, calc_operation = opn, calc_result = None\<rparr>]\<rparr>)"

text \<open>
  The property \<^verbatim>\<open>result\<close>. When \<^verbatim>\<open>_result\<close> is \<^verbatim>\<open>None\<close> it calls
  \<^verbatim>\<open>self.operation.execute(self.a, self.b)\<close> and stores what that returns; an exception
  of \<^verbatim>\<open>execute\<close> leaves \<^verbatim>\<open>_result\<close> as it was. A Decimal is never \<^verbatim>\<open>None\<close>, so a
  stored result is \<open>Some v\<close>.
\<close>

definition result :: "'d decimal_module \<Rightarrow> ref \<Rightarrow> 'd world \<Rightarrow> (exn + 'd) \<times> 'd world" where
  "result D self w =
     (let c = calculations w ! self in
      case calc_result c of
        Some v \<Rightarrow> (Inr v, w)
      | None \<Rightarrow>
          (let w1 = w\<lparr>execute_calls := Suc (execute_calls w)\<rparr> in
           case execute D (calc_operation c) (calc_a c) (calc_b c) of
             Inl e \<Rightarrow> (Inl e, w1)
           | Inr v \<Rightarrow>
               (Inr v, w1\<lparr>calculations := (calculations w1)[self := c\<lparr>calc_result := Some v\<rparr>]\<rparr>)))"

text \<open>
  \<^verbatim>\<open>__str__\<close>: \<^verbatim>\<open>f"{self.a} {self.operation} {self.b} = {self.result}"\<close>. The last field
  reads the property \<^verbatim>\<open>result\<close>; formatting a Decimal or an operation does not fail.
\<close>

definition Calculation_str :: "'d decimal_module \<Rightarrow> ref \<Rightarrow> 'd world \<Rightarrow> (exn + string) \<times> 'd world" where
  "Calculation_str D self w =
     (let c = calculations w ! self in
      case result D self w of
        (Inl e, w1) \<Rightarrow> (Inl e, w1)
      | (Inr v, w1) \<Rightarrow>
          (Inr (str D (calc_a c) @ '' '' @ operation_str (calc_operation c) @ '' ''
                @ str D (calc_b c) @ '' = '' @ str D v), w1))"

text \<open>\<^verbatim>\<open>self.operation.__class__.__name__\<close>.\<close>

fun class_name :: "operation \<Rightarrow> string" where
  "class_name Addition = ''Addition''"
| "class_name Subtraction = ''Subtraction''"
| "class_name Multiplication = ''Multiplication''"
| "class_name Division = ''Division''"

text \<open>\<^verbatim>\<open>__repr__\<close>: it does not read \<^verbatim>\<open>result\<close>.\<close>

definition Calculation_repr :: "'d decimal_module \<Rightarrow> ref \<Rightarrow> 'd world \<Rightarrow> string" where
  "Calculation_repr D self w =
     (let c = calculations w ! self in
      ''Calculation('' @ str D (calc_a c) @ '', '' @ str D (calc_b c) @ '', ''
        @ class_name (calc_operation c) @ '')'')"

text \<open>\<^verbatim>\<open>CalculationFactory.create_calculation\<close>: the constructor, nothing else.\<close>

definition create_calculation :: "'d \<Rightarrow> 'd \<Rightarrow> operation \<Rightarrow> 'd world \<Rightarrow> ref \<times> 'd world" where
  "create_calculation x y opn w = Calculation_init x y opn w"

section \<open>app/calculation: CalculationHistory\<close>

text \<open>
  A history object has one attribute, \<^verbatim>\<open>_history\<close>, the reference to its list. The
  attribute is assigned once, in \<^verbatim>\<open>__init__\<close>; every method works on the list object
  in place.
\<close>

record CalculationHistory =
  history_list :: ref   \<comment> \<open>\<^verbatim>\<open>self._history\<close>\<close>

definition CalculationHistory_init :: "'d world \<Rightarrow> CalculationHistory \<times> 'd world" where
  "CalculationHistory_init w =
     (case new_list [] w of (l, w1) \<Rightarrow> (\<lparr>history_list = l\<rparr>, w1))"

text \<open>\<^verbatim>\<open>self._history.append(calculation)\<close>.\<close>

definition add_calculation :: "CalculationHistory \<Rightarrow> ref \<Rightarrow> 'd world \<Rightarrow> 'd world" where
  "add_calculation self calculation w =
     w\<lparr>list_objects := (list_objects w)[history_list self := list_objects w ! history_list self @ [calculation]]\<rparr>"

text \<open>\<^verbatim>\<open>return self._history.copy()\<close>: a new list object with the same elements.\<close>

definition get_history :: "CalculationHistory \<Rightarrow> 'd world \<Rightarrow> ref \<times> 'd world" where
  "get_history self w = new_list (list_objects w ! history_list self) w"

text \<open>
  \<^verbatim>\<open>get_last_calculation\<close>: \<^verbatim>\<open>IndexError\<close> on an empty list, else
  \<^verbatim>\<open>self._history[-1]\<close>.
\<close>

definition get_last_calculation :: "CalculationHistory \<Rightarrow> 'd world \<Rightarrow> exn + ref" where
  "get_last_calculation self w =
     (if list_objects w ! history_list self = [] then Inl (IndexError ''No calculations in history'')
      else Inr (last (list_objects w ! history_list self)))"

text \<open>\<^verbatim>\<open>self._history.clear()\<close>.\<close>

definition clear_history :: "CalculationHistory \<Rightarrow> 'd world \<Rightarrow> 'd world" where
  "clear_history self w = w\<lparr>list_objects := (list_objects w)[history_list self := []]\<rparr>"

text \<open>\<^verbatim>\<open>__len__\<close>.\<close>

definition len :: "CalculationHistory \<Rightarrow> 'd world \<Rightarrow> nat" where
  "len self w = length (list_objects w ! history_list self)"

text \<open>\<^verbatim>\<open>__iter__\<close>: the elements of the stored list, in order.\<close>

definition iter :: "CalculationHistory \<Rightarrow> 'd world \<Rightarrow> ref list" where
  "iter self w = list_objects w ! history_list self"

section \<open>Strings\<close>

text \<open>
  A Python \<^verbatim>\<open>str\<close> is modelled as a \<open>string\<close> whose characters are the code points
  0 to 255. On these, \<^verbatim>\<open>str.isspace\<close> holds of the codes 9 to 13, 28 to 32, 133 and
  160, and \<^verbatim>\<open>str.lower\<close> adds 32 to the codes of \<^verbatim>\<open>A\<close> to \<^verbatim>\<open>Z\<close> and of the capital
  letters 192 to 222 (215, the multiplication sign, is not one).
\<close>

definition isspace :: "char \<Rightarrow> bool" where
  "isspace c =
     (let n = (of_char c :: nat)
      in (9 \<le> n \<and> n \<le> 13) \<or> (28 \<le> n \<and> n \<le> 32) \<or> n = 133 \<or> n = 160)"

definition isupper :: "char \<Rightarrow> bool" where
  "isupper c =
     (let n = (of_char c :: nat)
      in (65 \<le> n \<and> n \<le> 90) \<or> (192 \<le> n \<and> n \<le> 222 \<and> n \<noteq> 215))"

definition lower_char :: "char \<Rightarrow> char" where
  "lower_char c = (if isupper c then char_of (of_char c + 32 :: nat) else c)"

definition lower :: "string \<Rightarrow> string" where
  "lower s = map lower_char s"

text \<open>
  \<^verbatim>\<open>str.split()\<close> without arguments: the maximal runs of characters that are not
  whitespace, in order. \<open>split_from word s\<close> scans \<open>s\<close> with the run read so far in
  \<open>word\<close>.
\<close>

fun split_from :: "string \<Rightarrow> string \<Rightarrow> string list" where
  "split_from word [] = (if word = [] then [] else [word])"
| "split_from word (c # cs) =
     (if isspace c then (if word = [] then split_from [] cs else word # split_from [] cs)
      else split_from (word @ [c]) cs)"

definition split :: "string \<Rightarrow> string list" where
  "split s = split_from [] s"

section \<open>app/calculator\<close>

text \<open>
  A \<^verbatim>\<open>Calculator\<close> has the dictionary \<^verbatim>\<open>operations\<close>, filled in \<^verbatim>\<open>__init__\<close> and never
  assigned again, and its history. (Its third attribute, the factory, has no state.)
\<close>

record Calculator =
  operations :: "string \<rightharpoonup> operation"
  history :: CalculationHistory

definition Calculator_init :: "'d world \<Rightarrow> Calculator \<times> 'd world" where
  "Calculator_init w =
     (case CalculationHistory_init w of
        (h, w1) \<Rightarrow>
          (\<lparr>operations =
              [''+'' \<mapsto> Addition, ''-'' \<mapsto> Subtraction, ''*'' \<mapsto> Multiplication,
               ''/'' \<mapsto> Division, ''add'' \<mapsto> Addition, ''subtract'' \<mapsto> Subtraction,
               ''multiply'' \<mapsto> Multiplication, ''divide'' \<mapsto> Division],
            history = h\<rparr>, w1))"

text \<open>
  A \<^verbatim>\<open>try\<close> block is a function to an outcome (\<open>None\<close>: the block ended normally,
  \<open>Some e\<close>: it raised \<open>e\<close>) and the world it left. \<^verbatim>\<open>except ValueError as e\<close> runs
  its handler on the message of a \<^verbatim>\<open>ValueError\<close> and lets every other exception pass.
\<close>

fun except_ValueError ::
  "(string \<Rightarrow> 'd world \<Rightarrow> 'd world) \<Rightarrow> exn option \<times> 'd world \<Rightarrow> exn option \<times> 'd world" where
  "except_ValueError handler (Some (ValueError m), w) = (None, handler m w)"
| "except_ValueError handler (r, w) = (r, w)"

text \<open>
  \<^verbatim>\<open>a = Decimal(parts[0]); b = Decimal(parts[2])\<close> under
  \<^verbatim>\<open>except InvalidOperation as e: raise ValueError(f"Invalid number format: {e}")\<close>.
\<close>

fun except_InvalidOperation :: "signal \<times> string + 'a \<Rightarrow> exn + 'a" where
  "except_InvalidOperation (Inl (s, m)) =
     (if s = InvalidOperation then Inl (ValueError (''Invalid number format: '' @ m))
      else Inl (DecimalException s m))"
| "except_InvalidOperation (Inr v) = Inr v"

definition parse_operands :: "'d decimal_module \<Rightarrow> string \<Rightarrow> string \<Rightarrow> exn + 'd \<times> 'd" where
  "parse_operands D s0 s2 =
     (case except_InvalidOperation (Decimal D s0) of
        Inl e \<Rightarrow> Inl e
      | Inr x \<Rightarrow>
          (case except_InvalidOperation (Decimal D s2) of
             Inl e \<Rightarrow> Inl e
           | Inr y \<Rightarrow> Inr (x, y)))"

text \<open>
  The inner \<^verbatim>\<open>try\<close> of \<^verbatim>\<open>_process_calculation\<close>: read \<^verbatim>\<open>calculation.result\<close>, then
  append to the history, then print the calculation.
\<close>

definition compute_and_record ::
  "'d decimal_module \<Rightarrow> Calculator \<Rightarrow> ref \<Rightarrow> 'd world \<Rightarrow> exn option \<times> 'd world" where
  "compute_and_record D self calculation w =
     except_ValueError (\<lambda>m. print (''Error: '' @ m))
       (case result D calculation w of
          (Inl e, w1) \<Rightarrow> (Some e, w1)
        | (Inr r, w1) \<Rightarrow>
            (let w2 = add_calculation (history self) calculation w1 in
             case Calculation_str D calculation w2 of
               (Inl e, w3) \<Rightarrow> (Some e, w3)
             | (Inr s, w3) \<Rightarrow> (None, print (''Result: '' @ s) w3)))"

text \<open>
  \<^verbatim>\<open>_process_calculation\<close>. The outcome is \<open>None\<close> when the method returns and
  \<open>Some e\<close> when the exception \<open>e\<close> leaves it: only a \<^verbatim>\<open>ValueError\<close> is caught.
\<close>

definition process_calculation ::
  "'d decimal_module \<Rightarrow> Calculator \<Rightarrow> string \<Rightarrow> 'd world \<Rightarrow> exn option \<times> 'd world" where
  "process_calculation D self user_input w =
     except_ValueError
       (\<lambda>m. print ''Use 'help' command for usage instructions.'' \<circ> print (''Error: '' @ m))
       (let parts = split user_input in
        if length parts \<noteq> 3 then
          (Some (ValueError ''Invalid input format. Expected: <number> <operation> <number>''), w)
        else
          let token = lower (parts ! 1) in
          if operations self token = None then
            (Some (ValueError (''Unknown operation: '' @ token)), w)
          else
            case parse_operands D (parts ! 0) (parts ! 2) of
              Inl e \<Rightarrow> (Some e, w)
            | Inr (x, y) \<Rightarrow>
                (case create_calculation x y (the (operations self token)) w of
                   (calculation, w1) \<Rightarrow> compute_and_record D self calculation w1))"

text \<open>\<^verbatim>\<open>Calculator.calculate\<close>: no \<^verbatim>\<open>try\<close>, the token is looked up as it is given.\<close>

definition calculate ::
  "'d decimal_module \<Rightarrow> Calculator \<Rightarrow> 'd \<Rightarrow> string \<Rightarrow> 'd \<Rightarrow> 'd world \<Rightarrow> (exn + 'd) \<times> 'd world" where
  "calculate D self x token y w =
     (if operations self token = None then
        (Inl (ValueError (''Unknown operation: '' @ token)), w)
      else
        case create_calculation x y (the (operations self token)) w of
          (calculation, w1) \<Rightarrow>
            (case result D calculation w1 of
               (Inl e, w2) \<Rightarrow> (Inl e, w2)
             | (Inr r, w2) \<Rightarrow> (Inr r, add_calculation (history self) calculation w2)))"

text \<open>\<^verbatim>\<open>_clear_history\<close>.\<close>

definition Calculator_clear_history :: "Calculator \<Rightarrow> 'd world \<Rightarrow> 'd world" where
  "Calculator_clear_history self w =
     print ''Calculation history cleared.'' (clear_history (history self) w)"

section \<open>Clients of the objects\<close>

text \<open>
  A client that reads the property \<^verbatim>\<open>result\<close> of one calculation \<open>n\<close> times in a row:
  the outcomes in order, and the world after the last read.
\<close>

fun accesses ::
  "'d decimal_module \<Rightarrow> ref \<Rightarrow> nat \<Rightarrow> 'd world \<Rightarrow> (exn + 'd) list \<times> 'd world" where
  "accesses D self 0 w = ([], w)"
| "accesses D self (Suc n) w =
     (case result D self w of
        (r, w1) \<Rightarrow> (case accesses D self n w1 of (rs, w2) \<Rightarrow> (r # rs, w2)))"

text \<open>
  A client that changes a list object in place (append, remove, sort, reverse, clear,
  item assignment, ...): \<open>f\<close> is what the change does to the elements.
\<close>

definition mutate_list :: "ref \<Rightarrow> (ref list \<Rightarrow> ref list) \<Rightarrow> 'd world \<Rightarrow> 'd world" where
  "mutate_list l f w = w\<lparr>list_objects := (list_objects w)[l := f (list_objects w ! l)]\<rparr>"

text \<open>
  The state of a calculation's cache that the code maintains: \<^verbatim>\<open>_result\<close> is \<^verbatim>\<open>None\<close>
  or the value \<^verbatim>\<open>execute\<close> returns on the operands. \<open>world_ok\<close> says so of every
  calculation in the store.
\<close>

definition cache_ok :: "'d decimal_module \<Rightarrow> 'd Calculation \<Rightarrow> bool" where
  "cache_ok D c =
     (case calc_result c of
        None \<Rightarrow> True
      | Some v \<Rightarrow> execute D (calc_operation c) (calc_a c) (calc_b c) = Inr v)"

definition world_ok :: "'d decimal_module \<Rightarrow> 'd world \<Rightarrow> bool" where
  "world_ok D w = list_all (cache_ok D) (calculations w)"

text \<open>
  A word is what \<^verbatim>\<open>split\<close> returns as a field: not empty and free of whitespace.
\<close>

definition is_word :: "string \<Rightarrow> bool" where
  "is_word s = (s \<noteq> [] \<and> list_all (\<lambda>c. \<not> isspace c) s)"

text \<open>
  A client of the program is a sequence of calls of its methods, on any objects and
  arguments. \<open>call\<close> is the world one call leaves, \<open>calls\<close> the world a sequence
  leaves. The methods that only read (\<^verbatim>\<open>get_last_calculation\<close>, \<^verbatim>\<open>__len__\<close>,
  \<^verbatim>\<open>__iter__\<close>, \<^verbatim>\<open>__repr__\<close>) leave the world as it is and are not listed.
\<close>

datatype 'd method_call =
  New_Calculation 'd 'd operation
  | Read_result ref
  | Read_str ref
  | New_History
  | Add_calculation CalculationHistory ref
  | Get_history CalculationHistory
  | Clear_history CalculationHistory
  | Mutate_list ref "ref list \<Rightarrow> ref list"
  | New_Calculator
  | Process_calculation Calculator string
  | Calculate Calculator 'd string 'd
  | Clear Calculator

fun call :: "'d decimal_module \<Rightarrow> 'd method_call \<Rightarrow> 'd world \<Rightarrow> 'd world" where
  "call D (New_Calculation x y opn) w = snd (create_calculation x y opn w)"
| "call D (Read_result self) w = snd (result D self w)"
| "call D (Read_str self) w = snd (Calculation_str D self w)"
| "call D New_History w = snd (CalculationHistory_init w)"
| "call D (Add_calculation h c) w = add_calculation h c w"
| "call D (Get_history h) w = snd (get_history h w)"
| "call D (Clear_history h) w = clear_history h w"
| "call D (Mutate_list l f) w = mutate_list l f w"
| "call D New_Calculator w = snd (Calculator_init w)"
| "call D (Process_calculation self user_input) w = snd (process_calculation D self user_input w)"
| "call D (Calculate self x token y) w = snd (calculate D self x token y w)"
| "call D (Clear self) w = Calculator_clear_history self w"

fun calls :: "'d decimal_module \<Rightarrow> 'd method_call list \<Rightarrow> 'd world \<Rightarrow> 'd world" where
  "calls D [] w = w"
| "calls D (c # cs) w = calls D cs (call D c w)"

text \<open>
  A calculation made from \<open>x\<close>, \<open>y\<close> and an operation whose \<^verbatim>\<open>result\<close> has been read
  once: the cache holds the value of \<^verbatim>\<open>execute\<close>, or nothing when it raised.
\<close>

definition new_cache :: "'d decimal_module \<Rightarrow> 'd \<Rightarrow> 'd \<Rightarrow> operation \<Rightarrow> 'd Calculation" where
  "new_cache D x y opn =
     \<lparr>calc_a = x, calc_b = y, calc_operation = opn,
      calc_result = (case execute D opn x y of Inl e \<Rightarrow> None | Inr v \<Rightarrow> Some v)\<rparr>"

section \<open>An instance of the decimal module for evaluation\<close>

text \<open>
  The theorems below hold for every decimal module \<open>D\<close>. To evaluate the model on
  examples an instance is needed; \<open>exact_decimal\<close> is a small one and not Python's: its
  values are the rationals, its arithmetic is exact and signals on a zero divisor only,
  its constructor reads numerals made of decimal digits only, and it prints a value as
  an integer or as a fraction.
\<close>

definition isdigit :: "char \<Rightarrow> bool" where
  "isdigit c = (let n = (of_char c :: nat) in 48 \<le> n \<and> n \<le> 57)"

definition numeral_value :: "string \<Rightarrow> nat" where
  "numeral_value s = foldl (\<lambda>n c. 10 * n + (of_char c - 48)) 0 s"

function show_nat :: "nat \<Rightarrow> string" where
  "show_nat n =
     (if n < 10 then [char_of (48 + n)]
      else show_nat (n div 10) @ [char_of (48 + n mod 10)])"
  by pat_completeness auto
termination
  by (relation "measure id") auto

definition show_int :: "int \<Rightarrow> string" where
  "show_int i = (if i < 0 then ''-'' @ show_nat (nat (- i)) else show_nat (nat i))"

definition exact_decimal :: "rat decimal_module" where
  "exact_decimal =
     \<lparr>Decimal = (\<lambda>s. if s \<noteq> [] \<and> list_all isdigit s then Inr (of_nat (numeral_value s))
                     else Inl (InvalidOperation, ''[<class 'decimal.ConversionSyntax'>]'')),
      add = (\<lambda>x y. Inr (x + y)),
      sub = (\<lambda>x y. Inr (x - y)),
      mul = (\<lambda>x y. Inr (x * y)),
      truediv = (\<lambda>x y. if y \<noteq> 0 then Inr (x / y)
                      else if x = 0 then Inl (InvalidOperation, ''[<class 'decimal.DivisionUndefined'>]'')
                      else Inl (DivisionByZero, ''[<class 'decimal.DivisionByZero'>]'')),
      eq_zero = (\<lambda>y. Inr (y = 0)),
      str = (\<lambda>x. case quotient_of x of
                    (p, q) \<Rightarrow> if q = 1 then show_int p else show_int p @ ''/'' @ show_int q)\<rparr>"

text \<open>The empty world, before any object exists.\<close>

definition empty_world :: "'d world" where
  "empty_world = \<lparr>calculations = [], list_objects = [], execute_calls = 0, stdout = []\<rparr>"

section \<open>Operations\<close>



text \<open>
  Claim C2. Whenever the second operand compares equal to zero, \<^verbatim>\<open>Division.execute\<close>
  raises \<^verbatim>\<open>ValueError("Cannot divide by zero")\<close>, the specification's DivisionByZero, for
  every first operand; it returns no value.
\<close>

theorem division_by_zero_raises:
  "eq_zero D y = Inr True \<Longrightarrow> execute D Division x y = Inl (ValueError ''Cannot divide by zero'')"
  by simp

theorem division_by_zero_raises_witness:
  "eq_zero exact_decimal 0 = Inr True
   \<and> execute exact_decimal Division 5 0 = Inl (ValueError ''Cannot divide by zero'')"
  using division_by_zero_raises [of exact_decimal 0 5] by (simp add: exact_decimal_def)

section \<open>The property result\<close>

lemma result_cached:
  "calc_result (calculations w ! self) = Some v \<Longrightarrow> result D self w = (Inr v, w)"
  by (simp add: result_def)

lemma result_success_cache:
  assumes "self < length (calculations w)" and "result D self w = (Inr v, w1)"
  shows "calc_result (calculations w1 ! self) = Some v"
  using assms
  by (auto simp: result_def Let_def split: option.splits sum.splits)

lemma result_failure:
  assumes "result D self w = (Inl e, w1)"
  shows "calc_result (calculations w ! self) = None
         \<and> execute D (calc_operation (calculations w ! self)) (calc_a (calculations w ! self))
               (calc_b (calculations w ! self)) = Inl e
         \<and> w1 = w\<lparr>execute_calls := Suc (execute_calls w)\<rparr>"
  using assms
  by (auto simp: result_def Let_def split: option.splits sum.splits)

lemma result_uncached_failure:
  assumes "calc_result (calculations w ! self) = None"
    and "execute D (calc_operation (calculations w ! self)) (calc_a (calculations w ! self))
               (calc_b (calculations w ! self)) = Inl e"
  shows "result D self w = (Inl e, w\<lparr>execute_calls := Suc (execute_calls w)\<rparr>)"
  using assms by (simp add: result_def)

lemma accesses_cached:
  "calc_result (calculations w ! self) = Some v \<Longrightarrow>
   accesses D self n w = (replicate n (Inr v), w)"
  by (induction n) (simp_all add: result_cached)

lemma accesses_failing:
  assumes "calc_result (calculations w ! self) = None"
    and "execute D (calc_operation (calculations w ! self)) (calc_a (calculations w ! self))
               (calc_b (calculations w ! self)) = Inl e"
  shows "accesses D self n w = (replicate n (Inl e), w\<lparr>execute_calls := execute_calls w + n\<rparr>)"
  using assms
proof (induction n arbitrary: w)
  case 0
  then show ?case by simp
next
  case (Suc n)
  let ?w1 = "w\<lparr>execute_calls := Suc (execute_calls w)\<rparr>"
  have r: "result D self w = (Inl e, ?w1)"
    using Suc.prems by (rule result_uncached_failure)
  have "accesses D self n ?w1 = (replicate n (Inl e), ?w1\<lparr>execute_calls := execute_calls ?w1 + n\<rparr>)"
    using Suc.prems by (intro Suc.IH) simp_all
  with r show ?case by simp
qed

text \<open>
  Claim C4. When an access to \<^verbatim>\<open>result\<close> fails with an exception \<open>e\<close> (in particular
  with the DivisionByZero \<^verbatim>\<open>ValueError\<close>), every later access raises the same \<open>e\<close>
  again. The failure is not cached: each of the \<open>n\<close> later accesses enters
  \<^verbatim>\<open>execute\<close> once more, and nothing else in the world changes.
\<close>

theorem failed_result_is_retried:
  assumes "result D self w = (Inl e, w1)"
  shows "accesses D self n w1 = (replicate n (Inl e), w1\<lparr>execute_calls := execute_calls w1 + n\<rparr>)"
proof -
  from assms have "calc_result (calculations w ! self) = None"
    and "execute D (calc_operation (calculations w ! self)) (calc_a (calculations w ! self))
               (calc_b (calculations w ! self)) = Inl e"
    and "w1 = w\<lparr>execute_calls := Suc (execute_calls w)\<rparr>"
    using result_failure by blast+
  then show ?thesis
    by (intro accesses_failing) simp_all
qed

theorem failed_result_is_retried_witness:
  "result exact_decimal 0 (snd (Calculation_init 5 0 Division empty_world))
     = (Inl (ValueError ''Cannot divide by zero''),
        \<lparr>calculations = [\<lparr>calc_a = 5, calc_b = 0, calc_operation = Division, calc_result = None\<rparr>],
         list_objects = [], execute_calls = 1, stdout = []\<rparr>)
   \<and> accesses exact_decimal 0 2
        \<lparr>calculations = [\<lparr>calc_a = 5, calc_b = 0, calc_operation = Division, calc_result = None\<rparr>],
         list_objects = [], execute_calls = 1, stdout = []\<rparr>
     = ([Inl (ValueError ''Cannot divide by zero''), Inl (ValueError ''Cannot divide by zero'')],
        \<lparr>calculations = [\<lparr>calc_a = 5, calc_b = 0, calc_operation = Division, calc_result = None\<rparr>],
         list_objects = [], execute_calls = 3, stdout = []\<rparr>)"
proof -
  have first:
    "result exact_decimal 0 (snd (Calculation_init 5 0 Division empty_world))
       = (Inl (ValueError ''Cannot divide by zero''),
          \<lparr>calculations = [\<lparr>calc_a = 5, calc_b = 0, calc_operation = Division, calc_result = None\<rparr>],
           list_objects = [], execute_calls = 1, stdout = []\<rparr>)"
    by (simp add: result_def Calculation_init_def empty_world_def exact_decimal_def)
  show ?thesis
    using first failed_result_is_retried [OF first, of 2]
    by (simp add: numeral_2_eq_2)
qed

section \<open>What the methods do to the store\<close>

text \<open>
  The invariant \<open>world_ok\<close> holds of the empty world and is kept by every method; the
  world a method leaves is described in full for the two entry points of the calculator.
\<close>

lemma world_ok_empty: "world_ok D empty_world"
  by (simp add: world_ok_def empty_world_def)

lemma world_ok_Calculation_init:
  "world_ok D w \<Longrightarrow> world_ok D (snd (Calculation_init x y opn w))"
  by (simp add: world_ok_def Calculation_init_def cache_ok_def)

lemma list_all_update:
  "list_all P xs \<Longrightarrow> (i < length xs \<Longrightarrow> P x) \<Longrightarrow> list_all P (xs[i := x])"
  by (induction xs arbitrary: i) (auto split: nat.splits)

lemma world_ok_result:
  assumes "world_ok D w"
  shows "world_ok D (snd (result D self w))"
proof (cases "calc_result (calculations w ! self)")
  case (Some v)
  with assms show ?thesis by (simp add: result_def)
next
  case None
  show ?thesis
  proof (cases "execute D (calc_operation (calculations w ! self))
                  (calc_a (calculations w ! self)) (calc_b (calculations w ! self))")
    case (Inl e)
    with None assms show ?thesis by (simp add: result_def world_ok_def)
  next
    case (Inr v)
    with None assms show ?thesis
      by (simp add: result_def world_ok_def list_all_update cache_ok_def)
  qed
qed

lemma Calculation_str_world: "snd (Calculation_str D self w) = snd (result D self w)"
  by (simp add: Calculation_str_def Let_def split: prod.splits sum.splits)

lemma world_ok_Calculation_str:
  "world_ok D w \<Longrightarrow> world_ok D (snd (Calculation_str D self w))"
  by (simp add: Calculation_str_world world_ok_result)


lemma create_calculation_world:
  "create_calculation x y opn w =
     (length (calculations w),
      w\<lparr>calculations := calculations w @
         [\<lparr>calc_a = x, calc_b = y, calc_operation = opn, calc_result = None\<rparr>]\<rparr>)"
  by (simp add: create_calculation_def Calculation_init_def)

lemma result_of_new_calculation:
  "result D (length (calculations w))
     (w\<lparr>calculations := calculations w @
         [\<lparr>calc_a = x, calc_b = y, calc_operation = opn, calc_result = None\<rparr>]\<rparr>)
   = (case execute D opn x y of
        Inl e \<Rightarrow>
          (Inl e, w\<lparr>calculations := calculations w @
              [\<lparr>calc_a = x, calc_b = y, calc_operation = opn, calc_result = None\<rparr>],
            execute_calls := Suc (execute_calls w)\<rparr>)
      | Inr v \<Rightarrow>
          (Inr v, w\<lparr>calculations := calculations w @
              [\<lparr>calc_a = x, calc_b = y, calc_operation = opn, calc_result = Some v\<rparr>],
            execute_calls := Suc (execute_calls w)\<rparr>))"
  by (simp add: result_def split: sum.splits)

lemma calculate_known:
  assumes "operations self token = Some opn"
  shows "calculate D self x token y w =
     (case execute D opn x y of
        Inl e \<Rightarrow>
          (Inl e, w\<lparr>calculations := calculations w @
              [\<lparr>calc_a = x, calc_b = y, calc_operation = opn, calc_result = None\<rparr>],
            execute_calls := Suc (execute_calls w)\<rparr>)
      | Inr v \<Rightarrow>
          (Inr v, add_calculation (history self) (length (calculations w))
             (w\<lparr>calculations := calculations w @
              [\<lparr>calc_a = x, calc_b = y, calc_operation = opn, calc_result = Some v\<rparr>],
            execute_calls := Suc (execute_calls w)\<rparr>)))"
  using assms
  by (simp add: calculate_def create_calculation_world result_of_new_calculation
      split: sum.splits)

lemma calculate_unknown:
  assumes "operations self token = None"
  shows "calculate D self x token y w = (Inl (ValueError (''Unknown operation: '' @ token)), w)"
  using assms by (simp add: calculate_def)

lemma compute_and_record_new:
  "compute_and_record D self (length (calculations w))
     (w\<lparr>calculations := calculations w @
         [\<lparr>calc_a = x, calc_b = y, calc_operation = opn, calc_result = None\<rparr>]\<rparr>)
   = (case execute D opn x y of
        Inl e \<Rightarrow>
          except_ValueError (\<lambda>m. print (''Error: '' @ m))
            (Some e, w\<lparr>calculations := calculations w @
              [\<lparr>calc_a = x, calc_b = y, calc_operation = opn, calc_result = None\<rparr>],
            execute_calls := Suc (execute_calls w)\<rparr>)
      | Inr v \<Rightarrow>
          (None,
           print (''Result: '' @ str D x @ '' '' @ operation_str opn @ '' '' @ str D y
                    @ '' = '' @ str D v)
             (add_calculation (history self) (length (calculations w))
               (w\<lparr>calculations := calculations w @
                  [\<lparr>calc_a = x, calc_b = y, calc_operation = opn, calc_result = Some v\<rparr>],
                execute_calls := Suc (execute_calls w)\<rparr>))))"
  by (simp add: compute_and_record_def result_of_new_calculation Calculation_str_def
      add_calculation_def result_def print_def split: sum.splits)

lemma process_calculation_parsed:
  assumes "split user_input = [s0, s1, s2]"
    and "operations self (lower s1) = Some opn"
    and "Decimal D s0 = Inr x" and "Decimal D s2 = Inr y"
  shows "process_calculation D self user_input w =
     except_ValueError
       (\<lambda>m. print ''Use 'help' command for usage instructions.'' \<circ> print (''Error: '' @ m))
       (compute_and_record D self (length (calculations w))
         (w\<lparr>calculations := calculations w @
           [\<lparr>calc_a = x, calc_b = y, calc_operation = opn, calc_result = None\<rparr>]\<rparr>))"
  using assms
  by (simp add: process_calculation_def parse_operands_def create_calculation_world)

lemma except_ValueError_eq:
  "except_ValueError h (r, w) =
     (case r of Some (ValueError m) \<Rightarrow> (None, h m w) | _ \<Rightarrow> (r, w))"
  by (cases "(h, (r, w))" rule: except_ValueError.cases) auto

lemma process_calculation_records:
  assumes "list_objects (snd (process_calculation D self user_input w)) \<noteq> list_objects w"
  shows "\<exists>v. fst (process_calculation D self user_input w) = None
           \<and> calc_result
                (calculations (snd (process_calculation D self user_input w)) ! length (calculations w))
               = Some v
           \<and> list_objects (snd (process_calculation D self user_input w))
               = (list_objects w)[history_list (history self) :=
                    list_objects w ! history_list (history self) @ [length (calculations w)]]"
proof -
  let ?parts = "split user_input"
  let ?token = "lower (?parts ! 1)"
  have three: "length ?parts = 3"
  proof (rule ccontr)
    assume "length ?parts \<noteq> 3"
    then have "list_objects (snd (process_calculation D self user_input w)) = list_objects w"
      by (simp add: process_calculation_def print_def Let_def)
    with assms show False by simp
  qed
  have "operations self ?token \<noteq> None"
  proof
    assume "operations self ?token = None"
    with three have "list_objects (snd (process_calculation D self user_input w)) = list_objects w"
      by (simp add: process_calculation_def print_def Let_def)
    with assms show False by simp
  qed
  then obtain opn where opn: "operations self ?token = Some opn"
    by blast
  have "\<not> (\<exists>e. parse_operands D (?parts ! 0) (?parts ! 2) = Inl e)"
  proof
    assume "\<exists>e. parse_operands D (?parts ! 0) (?parts ! 2) = Inl e"
    then obtain e where "parse_operands D (?parts ! 0) (?parts ! 2) = Inl e" ..
    with three opn
    have "list_objects (snd (process_calculation D self user_input w)) = list_objects w"
      by (simp add: process_calculation_def print_def Let_def except_ValueError_eq
          split: exn.splits)
    with assms show False by simp
  qed
  then obtain x y where xy: "parse_operands D (?parts ! 0) (?parts ! 2) = Inr (x, y)"
    by (cases "parse_operands D (?parts ! 0) (?parts ! 2)") auto
  have p: "process_calculation D self user_input w =
     except_ValueError
       (\<lambda>m. print ''Use 'help' command for usage instructions.'' \<circ> print (''Error: '' @ m))
       (compute_and_record D self (length (calculations w))
         (w\<lparr>calculations := calculations w @
           [\<lparr>calc_a = x, calc_b = y, calc_operation = opn, calc_result = None\<rparr>]\<rparr>))"
    using three opn xy
    by (simp add: process_calculation_def create_calculation_world)
  show ?thesis
  proof (cases "execute D opn x y")
    case (Inl e)
    with assms show ?thesis
      by (simp add: p compute_and_record_new except_ValueError_eq print_def
          split: exn.splits)
  next
    case (Inr v)
    then show ?thesis
      by (simp add: p compute_and_record_new print_def add_calculation_def)
  qed
qed

lemma calculate_calculations:
  "calculations (snd (calculate D self x token y w)) = calculations w
   \<or> (\<exists>opn. calculations (snd (calculate D self x token y w))
         = calculations w @ [new_cache D x y opn])"
proof (cases "operations self token")
  case None
  then show ?thesis by (simp add: calculate_unknown)
next
  case (Some opn)
  then have "calculations (snd (calculate D self x token y w))
         = calculations w @ [new_cache D x y opn]"
    by (simp add: calculate_known new_cache_def add_calculation_def split: sum.splits)
  then show ?thesis by blast
qed

lemma process_calculation_calculations:
  "calculations (snd (process_calculation D self u w)) = calculations w
   \<or> (\<exists>x y opn. calculations (snd (process_calculation D self u w))
         = calculations w @ [new_cache D x y opn])"
proof -
  let ?parts = "split u"
  let ?token = "lower (?parts ! 1)"
  consider (malformed) "length ?parts \<noteq> 3"
    | (unknown) "length ?parts = 3" "operations self ?token = None"
    | (invalid) opn e where "length ?parts = 3" "operations self ?token = Some opn"
        "parse_operands D (?parts ! 0) (?parts ! 2) = Inl e"
    | (parsed) opn x y where "length ?parts = 3" "operations self ?token = Some opn"
        "parse_operands D (?parts ! 0) (?parts ! 2) = Inr (x, y)"
    by (cases "operations self ?token"; cases "parse_operands D (?parts ! 0) (?parts ! 2)") auto
  then show ?thesis
  proof cases
    case malformed
    then show ?thesis
      by (simp add: process_calculation_def print_def Let_def)
  next
    case unknown
    then show ?thesis
      by (simp add: process_calculation_def print_def Let_def)
  next
    case invalid
    then show ?thesis
      by (simp add: process_calculation_def print_def Let_def except_ValueError_eq
          split: exn.splits)
  next
    case parsed
    then have "calculations (snd (process_calculation D self u w))
         = calculations w @ [new_cache D x y opn]"
      by (simp add: process_calculation_def Let_def create_calculation_world
          compute_and_record_new except_ValueError_eq print_def add_calculation_def
          new_cache_def split: sum.splits exn.splits)
    then show ?thesis by blast
  qed
qed

lemma result_calculations:
  "calculations (snd (result D self w)) = calculations w
   \<or> (\<exists>v. calc_result (calculations w ! self) = None
          \<and> execute D (calc_operation (calculations w ! self)) (calc_a (calculations w ! self))
               (calc_b (calculations w ! self)) = Inr v
          \<and> calculations (snd (result D self w))
             = (calculations w)[self := (calculations w ! self)\<lparr>calc_result := Some v\<rparr>])"
  by (auto simp: result_def Let_def split: option.splits sum.splits)

lemma call_keeps_result:
  assumes "i < length (calculations w)" and "calc_result (calculations w ! i) = Some v"
  shows "i < length (calculations (call D c w))
         \<and> calculations (call D c w) ! i = calculations w ! i"
proof (cases c)
  case (New_Calculation x y opn)
  with assms show ?thesis by (simp add: create_calculation_world nth_append)
next
  case (Read_result self)
  with assms result_calculations [of D self w] show ?thesis
    by (cases "self = i") auto
next
  case (Read_str self)
  with assms result_calculations [of D self w] show ?thesis
    by (cases "self = i") (auto simp: Calculation_str_world)
next
  case (Process_calculation self u)
  with assms process_calculation_calculations [of D self u w] show ?thesis
    by (auto simp: nth_append)
next
  case (Calculate self x token y)
  with assms calculate_calculations [of D self x token y w] show ?thesis
    by (auto simp: nth_append)
qed (use assms in \<open>simp_all add: CalculationHistory_init_def new_list_def add_calculation_def
      get_history_def clear_history_def mutate_list_def Calculator_init_def
      Calculator_clear_history_def print_def\<close>)

lemma calls_keep_result:
  assumes "i < length (calculations w)" and "calc_result (calculations w ! i) = Some v"
  shows "i < length (calculations (calls D cs w))
         \<and> calculations (calls D cs w) ! i = calculations w ! i"
  using assms
proof (induction cs arbitrary: w)
  case Nil
  then show ?case by simp
next
  case (Cons c cs)
  have step: "i < length (calculations (call D c w))"
    "calculations (call D c w) ! i = calculations w ! i"
    using call_keeps_result [OF Cons.prems, of D c] by simp_all
  with Cons.prems have "calc_result (calculations (call D c w) ! i) = Some v"
    by simp
  with step Cons.IH [of "call D c w"] show ?case by simp
qed

lemma cache_ok_new_cache: "cache_ok D (new_cache D x y opn)"
  by (simp add: cache_ok_def new_cache_def split: sum.splits)

lemma world_ok_call:
  assumes "world_ok D w"
  shows "world_ok D (call D c w)"
proof (cases c)
  case (New_Calculation x y opn)
  with assms show ?thesis
    using world_ok_Calculation_init [of D w x y opn] by (simp add: create_calculation_def)
next
  case (Read_result self)
  with assms show ?thesis by (simp add: world_ok_result)
next
  case (Read_str self)
  with assms show ?thesis by (simp add: world_ok_Calculation_str)
next
  case (Process_calculation self u)
  with assms process_calculation_calculations [of D self u w] show ?thesis
    by (auto simp: world_ok_def cache_ok_new_cache)
next
  case (Calculate self x token y)
  with assms calculate_calculations [of D self x token y w] show ?thesis
    by (auto simp: world_ok_def cache_ok_new_cache)
qed (use assms in \<open>simp_all add: world_ok_def CalculationHistory_init_def new_list_def
      add_calculation_def get_history_def clear_history_def mutate_list_def Calculator_init_def
      Calculator_clear_history_def print_def\<close>)

lemma world_ok_calls: "world_ok D w \<Longrightarrow> world_ok D (calls D cs w)"
  by (induction cs arbitrary: w) (simp_all add: world_ok_call)

lemma world_ok_reachable: "world_ok D (calls D cs empty_world)"
  by (simp add: world_ok_calls world_ok_empty)

text \<open>
  So every world a client can reach from the empty one satisfies \<open>world_ok\<close>: a cache
  that is filled holds the value of \<^verbatim>\<open>execute\<close> on the operands, for every calculation
  the program ever holds.
\<close>

text \<open>
  Claim C5. When an access to \<^verbatim>\<open>result\<close> of a calculation succeeds with \<open>v\<close>, every
  later access (the second, the third, any number \<open>n\<close> of them) returns the same \<open>v\<close>
  and leaves the whole world as it is: \<^verbatim>\<open>execute\<close> is not entered again and the cached
  value stays \<open>v\<close>. The successful access itself entered \<^verbatim>\<open>execute\<close> at most once. And
  whatever methods of the program are called afterwards, in any number and order, an
  access to \<^verbatim>\<open>result\<close> still returns \<open>v\<close> without changing the world.
\<close>

theorem result_is_memoized:
  assumes "self < length (calculations w)" and "result D self w = (Inr v, w1)"
  shows "accesses D self n w1 = (replicate n (Inr v), w1)
         \<and> calc_result (calculations w1 ! self) = Some v
         \<and> execute_calls w1 \<le> Suc (execute_calls w)
         \<and> result D self (calls D cs w1) = (Inr v, calls D cs w1)"
proof -
  have c: "calc_result (calculations w1 ! self) = Some v"
    using assms by (rule result_success_cache)
  have count: "execute_calls w1 \<le> Suc (execute_calls w)"
    using assms(2) by (auto simp: result_def Let_def split: option.splits sum.splits)
  have "length (calculations w1) = length (calculations w)"
    using assms(2) by (auto simp: result_def Let_def split: option.splits sum.splits)
  with assms(1) have live: "self < length (calculations w1)"
    by simp
  have "calculations (calls D cs w1) ! self = calculations w1 ! self"
    using calls_keep_result [OF live c, of D cs] by simp
  with c have "result D self (calls D cs w1) = (Inr v, calls D cs w1)"
    by (simp add: result_cached)
  with c count show ?thesis
    by (simp add: accesses_cached)
qed

theorem result_is_memoized_witness:
  "0 < length (calculations (snd (Calculation_init 5 3 Addition (empty_world :: rat world))))
   \<and> result exact_decimal 0 (snd (Calculation_init 5 3 Addition empty_world))
     = (Inr 8,
        \<lparr>calculations = [\<lparr>calc_a = 5, calc_b = 3, calc_operation = Addition, calc_result = Some 8\<rparr>],
         list_objects = [], execute_calls = 1, stdout = []\<rparr>)
   \<and> accesses exact_decimal 0 2
        \<lparr>calculations = [\<lparr>calc_a = 5, calc_b = 3, calc_operation = Addition, calc_result = Some 8\<rparr>],
         list_objects = [], execute_calls = 1, stdout = []\<rparr>
     = ([Inr 8, Inr 8],
        \<lparr>calculations = [\<lparr>calc_a = 5, calc_b = 3, calc_operation = Addition, calc_result = Some 8\<rparr>],
         list_objects = [], execute_calls = 1, stdout = []\<rparr>)
   \<and> calls exact_decimal [New_Calculation 1 0 Division, Read_result 1, Read_str 0]
        \<lparr>calculations = [\<lparr>calc_a = 5, calc_b = 3, calc_operation = Addition, calc_result = Some 8\<rparr>],
         list_objects = [], execute_calls = 1, stdout = []\<rparr>
     = \<lparr>calculations =
          [\<lparr>calc_a = 5, calc_b = 3, calc_operation = Addition, calc_result = Some 8\<rparr>,
           \<lparr>calc_a = 1, calc_b = 0, calc_operation = Division, calc_result = None\<rparr>],
        list_objects = [], execute_calls = 2, stdout = []\<rparr>
   \<and> result exact_decimal 0
        \<lparr>calculations =
          [\<lparr>calc_a = 5, calc_b = 3, calc_operation = Addition, calc_result = Some 8\<rparr>,
           \<lparr>calc_a = 1, calc_b = 0, calc_operation = Division, calc_result = None\<rparr>],
        list_objects = [], execute_calls = 2, stdout = []\<rparr>
     = (Inr 8,
        \<lparr>calculations =
          [\<lparr>calc_a = 5, calc_b = 3, calc_operation = Addition, calc_result = Some 8\<rparr>,
           \<lparr>calc_a = 1, calc_b = 0, calc_operation = Division, calc_result = None\<rparr>],
        list_objects = [], execute_calls = 2, stdout = []\<rparr>)"
proof -
  let ?w1 = "\<lparr>calculations = [\<lparr>calc_a = 5, calc_b = 3, calc_operation = Addition, calc_result = Some 8\<rparr>],
           list_objects = [], execute_calls = 1, stdout = []\<rparr> :: rat world"
  let ?cs = "[New_Calculation 1 0 Division, Read_result 1, Read_str 0] :: rat method_call list"
  have valid: "0 < length (calculations (snd (Calculation_init 5 3 Addition (empty_world :: rat world))))"
    by (simp add: Calculation_init_def empty_world_def)
  have first:
    "result exact_decimal 0 (snd (Calculation_init 5 3 Addition empty_world)) = (Inr 8, ?w1)"
    by (simp add: result_def Calculation_init_def empty_world_def exact_decimal_def)
  have later:
    "calls exact_decimal ?cs ?w1
     = \<lparr>calculations =
          [\<lparr>calc_a = 5, calc_b = 3, calc_operation = Addition, calc_result = Some 8\<rparr>,
           \<lparr>calc_a = 1, calc_b = 0, calc_operation = Division, calc_result = None\<rparr>],
        list_objects = [], execute_calls = 2, stdout = []\<rparr>"
    by code_simp
  show ?thesis
    using valid first later result_is_memoized [OF valid first, of 2 ?cs]
    by (simp add: numeral_2_eq_2)
qed

section \<open>Formatting a calculation\<close>



section \<open>The history\<close>

lemma add_calculation_contents:
  "history_list self < length (list_objects w) \<Longrightarrow>
   list_objects (add_calculation self c w) ! history_list self = list_objects w ! history_list self @ [c]"
  by (simp add: add_calculation_def)

lemma add_calculation_valid:
  "length (list_objects (add_calculation self c w)) = length (list_objects w)"
  by (simp add: add_calculation_def)

lemma get_history_contents:
  "get_history self w = (l, w1) \<Longrightarrow>
   l = length (list_objects w) \<and> list_objects w1 = list_objects w @ [list_objects w ! history_list self]"
  by (auto simp: get_history_def new_list_def)

text \<open>
  Claim C6. On a history that is empty, after appending the calculations \<open>c1\<close>, \<open>c2\<close>,
  \<open>c3\<close> in this order (any references, equal ones included), the list \<^verbatim>\<open>get_history\<close>
  returns holds exactly \<open>[c1, c2, c3]\<close>, iteration yields the same sequence, the length
  is 3, and \<^verbatim>\<open>get_last_calculation\<close> returns \<open>c3\<close>.
\<close>

theorem history_keeps_insertion_order:
  assumes "history_list self < length (list_objects w)" and "len self w = 0"
    and "w3 = add_calculation self c3 (add_calculation self c2 (add_calculation self c1 w))"
    and "get_history self w3 = (l, w4)"
  shows "list_objects w4 ! l = [c1, c2, c3]
         \<and> iter self w3 = [c1, c2, c3]
         \<and> len self w3 = 3
         \<and> get_last_calculation self w3 = Inr c3"
proof -
  have empty: "list_objects w ! history_list self = []"
    using assms(2) by (simp add: len_def)
  have stored: "list_objects w3 ! history_list self = [c1, c2, c3]"
    using assms(1) empty
    by (simp add: assms(3) add_calculation_contents add_calculation_valid)
  have "list_objects w4 ! l = list_objects w3 ! history_list self"
    using get_history_contents [OF assms(4)] by simp
  with stored show ?thesis
    by (simp add: iter_def len_def get_last_calculation_def)
qed

theorem history_keeps_insertion_order_witness:
  "history_list \<lparr>history_list = 0\<rparr>
     < length (list_objects (\<lparr>calculations =
          [\<lparr>calc_a = 5, calc_b = 3, calc_operation = Addition, calc_result = None\<rparr>,
           \<lparr>calc_a = 10, calc_b = 2, calc_operation = Division, calc_result = None\<rparr>,
           \<lparr>calc_a = 7, calc_b = 4, calc_operation = Multiplication, calc_result = None\<rparr>],
         list_objects = [[]], execute_calls = 0, stdout = []\<rparr> :: rat world))
   \<and> get_history \<lparr>history_list = 0\<rparr>
        (add_calculation \<lparr>history_list = 0\<rparr> 2
          (add_calculation \<lparr>history_list = 0\<rparr> 1
            (add_calculation \<lparr>history_list = 0\<rparr> 0
              (\<lparr>calculations =
                  [\<lparr>calc_a = 5, calc_b = 3, calc_operation = Addition, calc_result = None\<rparr>,
                   \<lparr>calc_a = 10, calc_b = 2, calc_operation = Division, calc_result = None\<rparr>,
                   \<lparr>calc_a = 7, calc_b = 4, calc_operation = Multiplication, calc_result = None\<rparr>],
                 list_objects = [[]], execute_calls = 0, stdout = []\<rparr> :: rat world))))
     = (1,
        \<lparr>calculations =
           [\<lparr>calc_a = 5, calc_b = 3, calc_operation = Addition, calc_result = None\<rparr>,
            \<lparr>calc_a = 10, calc_b = 2, calc_operation = Division, calc_result = None\<rparr>,
            \<lparr>calc_a = 7, calc_b = 4, calc_operation = Multiplication, calc_result = None\<rparr>],
         list_objects = [[0, 1, 2], [0, 1, 2]], execute_calls = 0, stdout = []\<rparr>)
   \<and> get_last_calculation \<lparr>history_list = 0\<rparr>
        (add_calculation \<lparr>history_list = 0\<rparr> 2
          (add_calculation \<lparr>history_list = 0\<rparr> 1
            (add_calculation \<lparr>history_list = 0\<rparr> 0
              (\<lparr>calculations =
                  [\<lparr>calc_a = 5, calc_b = 3, calc_operation = Addition, calc_result = None\<rparr>,
                   \<lparr>calc_a = 10, calc_b = 2, calc_operation = Division, calc_result = None\<rparr>,
                   \<lparr>calc_a = 7, calc_b = 4, calc_operation = Multiplication, calc_result = None\<rparr>],
                 list_objects = [[]], execute_calls = 0, stdout = []\<rparr> :: rat world))))
     = Inr 2"
proof -
  let ?h = "\<lparr>history_list = 0\<rparr>"
  let ?w = "\<lparr>calculations =
                  [\<lparr>calc_a = 5, calc_b = 3, calc_operation = Addition, calc_result = None\<rparr>,
                   \<lparr>calc_a = 10, calc_b = 2, calc_operation = Division, calc_result = None\<rparr>,
                   \<lparr>calc_a = 7, calc_b = 4, calc_operation = Multiplication, calc_result = None\<rparr>],
                 list_objects = [[]], execute_calls = 0, stdout = []\<rparr> :: rat world"
  let ?w3 = "add_calculation ?h 2 (add_calculation ?h 1 (add_calculation ?h 0 ?w))"
  let ?w4 = "\<lparr>calculations =
           [\<lparr>calc_a = 5, calc_b = 3, calc_operation = Addition, calc_result = None\<rparr>,
            \<lparr>calc_a = 10, calc_b = 2, calc_operation = Division, calc_result = None\<rparr>,
            \<lparr>calc_a = 7, calc_b = 4, calc_operation = Multiplication, calc_result = None\<rparr>],
         list_objects = [[0, 1, 2], [0, 1, 2]], execute_calls = 0, stdout = []\<rparr> :: rat world"
  have valid: "history_list ?h < length (list_objects ?w)" by simp
  have empty: "len ?h ?w = 0" by (simp add: len_def)
  have copy: "get_history ?h ?w3 = (1, ?w4)"
    by (simp add: get_history_def new_list_def add_calculation_def)
  show ?thesis
    using valid copy history_keeps_insertion_order [OF valid empty refl copy]
    by simp
qed

text \<open>
  Claim C7. \<^verbatim>\<open>get_history\<close> returns a new list object \<open>l\<close> with the stored elements.
  Whatever change \<open>f\<close> a client makes to that list (append, remove, reorder, ...), the
  list changes, the stored list and the reported length stay as they were, and the next
  \<^verbatim>\<open>get_history\<close> returns the stored elements again.
\<close>

theorem get_history_returns_a_copy:
  assumes "history_list self < length (list_objects w)"
    and "get_history self w = (l, w1)"
    and "w2 = mutate_list l f w1"
    and "get_history self w2 = (l', w3)"
  shows "list_objects w1 ! l = list_objects w ! history_list self
         \<and> list_objects w2 ! l = f (list_objects w ! history_list self)
         \<and> list_objects w2 ! history_list self = list_objects w ! history_list self
         \<and> len self w2 = len self w
         \<and> list_objects w3 ! l' = list_objects w ! history_list self"
proof -
  from assms(2) have l: "l = length (list_objects w)"
    and w1: "list_objects w1 = list_objects w @ [list_objects w ! history_list self]"
    using get_history_contents by blast+
  have snapshot: "list_objects w1 ! l = list_objects w ! history_list self"
    by (simp add: l w1)
  have w2: "list_objects w2 = list_objects w @ [f (list_objects w ! history_list self)]"
    by (simp add: assms(3) mutate_list_def l w1)
  have stored: "list_objects w2 ! history_list self = list_objects w ! history_list self"
    using assms(1) by (simp add: w2 nth_append)
  have "list_objects w3 ! l' = list_objects w2 ! history_list self"
    using get_history_contents [OF assms(4)] by simp
  with snapshot stored w2 l show ?thesis
    by (simp add: len_def)
qed

theorem get_history_returns_a_copy_witness:
  "get_history \<lparr>history_list = 0\<rparr>
      (\<lparr>calculations =
          [\<lparr>calc_a = 5, calc_b = 3, calc_operation = Addition, calc_result = None\<rparr>,
           \<lparr>calc_a = 10, calc_b = 2, calc_operation = Division, calc_result = None\<rparr>],
        list_objects = [[0]], execute_calls = 0, stdout = []\<rparr> :: rat world)
     = (1,
        \<lparr>calculations =
          [\<lparr>calc_a = 5, calc_b = 3, calc_operation = Addition, calc_result = None\<rparr>,
           \<lparr>calc_a = 10, calc_b = 2, calc_operation = Division, calc_result = None\<rparr>],
        list_objects = [[0], [0]], execute_calls = 0, stdout = []\<rparr>)
   \<and> mutate_list 1 (\<lambda>xs. xs @ [1])
        (\<lparr>calculations =
          [\<lparr>calc_a = 5, calc_b = 3, calc_operation = Addition, calc_result = None\<rparr>,
           \<lparr>calc_a = 10, calc_b = 2, calc_operation = Division, calc_result = None\<rparr>],
        list_objects = [[0], [0]], execute_calls = 0, stdout = []\<rparr> :: rat world)
     = \<lparr>calculations =
          [\<lparr>calc_a = 5, calc_b = 3, calc_operation = Addition, calc_result = None\<rparr>,
           \<lparr>calc_a = 10, calc_b = 2, calc_operation = Division, calc_result = None\<rparr>],
        list_objects = [[0], [0, 1]], execute_calls = 0, stdout = []\<rparr>
   \<and> len \<lparr>history_list = 0\<rparr>
        (\<lparr>calculations =
          [\<lparr>calc_a = 5, calc_b = 3, calc_operation = Addition, calc_result = None\<rparr>,
           \<lparr>calc_a = 10, calc_b = 2, calc_operation = Division, calc_result = None\<rparr>],
        list_objects = [[0], [0, 1]], execute_calls = 0, stdout = []\<rparr> :: rat world) = 1
   \<and> get_history \<lparr>history_list = 0\<rparr>
        (\<lparr>calculations =
          [\<lparr>calc_a = 5, calc_b = 3, calc_operation = Addition, calc_result = None\<rparr>,
           \<lparr>calc_a = 10, calc_b = 2, calc_operation = Division, calc_result = None\<rparr>],
        list_objects = [[0], [0, 1]], execute_calls = 0, stdout = []\<rparr> :: rat world)
     = (2,
        \<lparr>calculations =
          [\<lparr>calc_a = 5, calc_b = 3, calc_operation = Addition, calc_result = None\<rparr>,
           \<lparr>calc_a = 10, calc_b = 2, calc_operation = Division, calc_result = None\<rparr>],
        list_objects = [[0], [0, 1], [0]], execute_calls = 0, stdout = []\<rparr>)"
proof -
  let ?h = "\<lparr>history_list = 0\<rparr>"
  let ?cs = "[\<lparr>calc_a = 5, calc_b = 3, calc_operation = Addition, calc_result = None\<rparr>,
           \<lparr>calc_a = 10, calc_b = 2, calc_operation = Division, calc_result = None\<rparr>]
           :: rat Calculation list"
  let ?w = "\<lparr>calculations = ?cs, list_objects = [[0]], execute_calls = 0, stdout = []\<rparr>"
  let ?w1 = "\<lparr>calculations = ?cs, list_objects = [[0], [0]], execute_calls = 0, stdout = []\<rparr>"
  let ?w2 = "\<lparr>calculations = ?cs, list_objects = [[0], [0, 1]], execute_calls = 0, stdout = []\<rparr>"
  let ?w3 = "\<lparr>calculations = ?cs, list_objects = [[0], [0, 1], [0]], execute_calls = 0, stdout = []\<rparr>"
  have valid: "history_list ?h < length (list_objects ?w)" by simp
  have copy: "get_history ?h ?w = (1, ?w1)"
    by (simp add: get_history_def new_list_def)
  have change: "?w2 = mutate_list 1 (\<lambda>xs. xs @ [1]) ?w1"
    by (simp add: mutate_list_def)
  have again: "get_history ?h ?w2 = (2, ?w3)"
    by (simp add: get_history_def new_list_def)
  show ?thesis
    using copy change again get_history_returns_a_copy [OF valid copy change again]
    by (simp add: len_def)
qed

text \<open>
  Claim C8. On a history of length 0 \<^verbatim>\<open>get_last_calculation\<close> raises
  \<^verbatim>\<open>IndexError("No calculations in history")\<close>, the specification's EmptyHistory, and
  returns no value; a history is in that state after \<^verbatim>\<open>clear_history\<close> and when it has
  just been constructed.
\<close>

theorem get_last_calculation_of_empty_history:
  "(len self w = 0 \<longrightarrow>
      get_last_calculation self w = Inl (IndexError ''No calculations in history''))
   \<and> (history_list self < length (list_objects w) \<longrightarrow>
        len self (clear_history self w) = 0
        \<and> get_last_calculation self (clear_history self w)
            = Inl (IndexError ''No calculations in history''))
   \<and> (CalculationHistory_init w = (h, w0) \<longrightarrow>
        len h w0 = 0
        \<and> get_last_calculation h w0 = Inl (IndexError ''No calculations in history''))"
  by (auto simp: len_def get_last_calculation_def clear_history_def
      CalculationHistory_init_def new_list_def)

theorem get_last_calculation_of_empty_history_witness:
  "len \<lparr>history_list = 0\<rparr>
      (\<lparr>calculations = [], list_objects = [[]], execute_calls = 0, stdout = []\<rparr> :: rat world) = 0
   \<and> get_last_calculation \<lparr>history_list = 0\<rparr>
        (\<lparr>calculations = [], list_objects = [[]], execute_calls = 0, stdout = []\<rparr> :: rat world)
       = Inl (IndexError ''No calculations in history'')
   \<and> history_list \<lparr>history_list = 0\<rparr>
       < length (list_objects
           (\<lparr>calculations = [], list_objects = [[4, 7]], execute_calls = 0, stdout = []\<rparr> :: rat world))
   \<and> clear_history \<lparr>history_list = 0\<rparr>
        (\<lparr>calculations = [], list_objects = [[4, 7]], execute_calls = 0, stdout = []\<rparr> :: rat world)
       = \<lparr>calculations = [], list_objects = [[]], execute_calls = 0, stdout = []\<rparr>
   \<and> CalculationHistory_init (empty_world :: rat world)
       = (\<lparr>history_list = 0\<rparr>,
          \<lparr>calculations = [], list_objects = [[]], execute_calls = 0, stdout = []\<rparr>)"
proof -
  let ?h = "\<lparr>history_list = 0\<rparr>"
  let ?w = "\<lparr>calculations = [], list_objects = [[]], execute_calls = 0, stdout = []\<rparr> :: rat world"
  let ?w' = "\<lparr>calculations = [], list_objects = [[4, 7]], execute_calls = 0, stdout = []\<rparr> :: rat world"
  have new: "CalculationHistory_init (empty_world :: rat world) = (?h, ?w)"
    by (simp add: CalculationHistory_init_def new_list_def empty_world_def)
  have cleared: "clear_history ?h ?w' = ?w"
    by (simp add: clear_history_def)
  have empty: "len ?h ?w = 0"
    by (simp add: len_def)
  show ?thesis
    using new cleared empty
      get_last_calculation_of_empty_history [of ?h ?w ?h ?w]
      get_last_calculation_of_empty_history [of ?h ?w' ?h ?w]
      get_last_calculation_of_empty_history [of ?h empty_world ?h ?w]
    by simp
qed

section \<open>The calculator\<close>

text \<open>
  Claim C3. A division whose second operand compares equal to zero is not recorded.
  \<^verbatim>\<open>Calculator.calculate\<close> raises \<^verbatim>\<open>ValueError("Cannot divide by zero")\<close> to its caller
  and \<^verbatim>\<open>_process_calculation\<close> (on a line such as \<^verbatim>\<open>5 / 0\<close>) prints
  \<^verbatim>\<open>Error: Cannot divide by zero\<close> and returns; in both the store of lists, and with it
  the history, is as before (a \<^verbatim>\<open>Calculation\<close> object was made and \<^verbatim>\<open>execute\<close> entered
  once). And on every input, whenever either method changes a list at all, it has
  appended to the history's list exactly the calculation it created, whose result had
  been computed and cached before.
\<close>

theorem failed_calculation_is_not_recorded:
  "(operations self token = Some Division \<and> eq_zero D y = Inr True \<longrightarrow>
      calculate D self x token y w =
        (Inl (ValueError ''Cannot divide by zero''),
         w\<lparr>calculations := calculations w @
              [\<lparr>calc_a = x, calc_b = y, calc_operation = Division, calc_result = None\<rparr>],
           execute_calls := Suc (execute_calls w)\<rparr>))
   \<and> (split user_input = [s0, s1, s2] \<and> operations self (lower s1) = Some Division
        \<and> Decimal D s0 = Inr x \<and> Decimal D s2 = Inr y \<and> eq_zero D y = Inr True \<longrightarrow>
      process_calculation D self user_input w =
        (None,
         w\<lparr>calculations := calculations w @
              [\<lparr>calc_a = x, calc_b = y, calc_operation = Division, calc_result = None\<rparr>],
           execute_calls := Suc (execute_calls w),
           stdout := stdout w @ [''Error: Cannot divide by zero'']\<rparr>))
   \<and> (list_objects (snd (calculate D self x token y w)) \<noteq> list_objects w \<longrightarrow>
        (\<exists>v. fst (calculate D self x token y w) = Inr v
           \<and> calc_result (calculations (snd (calculate D self x token y w)) ! length (calculations w))
               = Some v
           \<and> list_objects (snd (calculate D self x token y w))
               = (list_objects w)[history_list (history self) :=
                    list_objects w ! history_list (history self) @ [length (calculations w)]]))
   \<and> (list_objects (snd (process_calculation D self user_input w)) \<noteq> list_objects w \<longrightarrow>
        (\<exists>v. fst (process_calculation D self user_input w) = None
           \<and> calc_result
                (calculations (snd (process_calculation D self user_input w)) ! length (calculations w))
               = Some v
           \<and> list_objects (snd (process_calculation D self user_input w))
               = (list_objects w)[history_list (history self) :=
                    list_objects w ! history_list (history self) @ [length (calculations w)]]))"
proof (intro conjI impI)
  assume "operations self token = Some Division \<and> eq_zero D y = Inr True"
  then show "calculate D self x token y w =
        (Inl (ValueError ''Cannot divide by zero''),
         w\<lparr>calculations := calculations w @
              [\<lparr>calc_a = x, calc_b = y, calc_operation = Division, calc_result = None\<rparr>],
           execute_calls := Suc (execute_calls w)\<rparr>)"
    by (simp add: calculate_known)
next
  assume "split user_input = [s0, s1, s2] \<and> operations self (lower s1) = Some Division
        \<and> Decimal D s0 = Inr x \<and> Decimal D s2 = Inr y \<and> eq_zero D y = Inr True"
  then show "process_calculation D self user_input w =
        (None,
         w\<lparr>calculations := calculations w @
              [\<lparr>calc_a = x, calc_b = y, calc_operation = Division, calc_result = None\<rparr>],
           execute_calls := Suc (execute_calls w),
           stdout := stdout w @ [''Error: Cannot divide by zero'']\<rparr>)"
    by (simp add: process_calculation_parsed compute_and_record_new print_def)
next
  assume changed: "list_objects (snd (calculate D self x token y w)) \<noteq> list_objects w"
  show "\<exists>v. fst (calculate D self x token y w) = Inr v
           \<and> calc_result (calculations (snd (calculate D self x token y w)) ! length (calculations w))
               = Some v
           \<and> list_objects (snd (calculate D self x token y w))
               = (list_objects w)[history_list (history self) :=
                    list_objects w ! history_list (history self) @ [length (calculations w)]]"
  proof (cases "operations self token")
    case None
    with changed show ?thesis by (simp add: calculate_unknown)
  next
    case (Some opn)
    with changed show ?thesis
      by (cases "execute D opn x y") (simp_all add: calculate_known add_calculation_def)
  qed
next
  assume changed: "list_objects (snd (process_calculation D self user_input w)) \<noteq> list_objects w"
  show "\<exists>v. fst (process_calculation D self user_input w) = None
           \<and> calc_result
                (calculations (snd (process_calculation D self user_input w)) ! length (calculations w))
               = Some v
           \<and> list_objects (snd (process_calculation D self user_input w))
               = (list_objects w)[history_list (history self) :=
                    list_objects w ! history_list (history self) @ [length (calculations w)]]"
    using changed by (rule process_calculation_records)
qed

theorem failed_calculation_is_not_recorded_witness:
  "operations (fst (Calculator_init (empty_world :: rat world))) ''/'' = Some Division
   \<and> Decimal exact_decimal ''5'' = Inr 5
   \<and> Decimal exact_decimal ''0'' = Inr 0
   \<and> eq_zero exact_decimal 0 = Inr True
   \<and> split ''5 / 0'' = [''5'', ''/'', ''0'']
   \<and> lower ''/'' = ''/''
   \<and> snd (Calculator_init (empty_world :: rat world))
       = \<lparr>calculations = [], list_objects = [[]], execute_calls = 0, stdout = []\<rparr>
   \<and> calculate exact_decimal (fst (Calculator_init (empty_world :: rat world))) 5 ''/'' 0
        (snd (Calculator_init empty_world))
       = (Inl (ValueError ''Cannot divide by zero''),
          \<lparr>calculations =
             [\<lparr>calc_a = 5, calc_b = 0, calc_operation = Division, calc_result = None\<rparr>],
           list_objects = [[]], execute_calls = 1, stdout = []\<rparr>)
   \<and> process_calculation exact_decimal (fst (Calculator_init (empty_world :: rat world))) ''5 / 0''
        (snd (Calculator_init empty_world))
       = (None,
          \<lparr>calculations =
             [\<lparr>calc_a = 5, calc_b = 0, calc_operation = Division, calc_result = None\<rparr>],
           list_objects = [[]], execute_calls = 1,
           stdout = [''Error: Cannot divide by zero'']\<rparr>)
   \<and> calculate exact_decimal (fst (Calculator_init (empty_world :: rat world))) 5 ''+'' 3
        (snd (Calculator_init empty_world))
       = (Inr 8,
          \<lparr>calculations =
             [\<lparr>calc_a = 5, calc_b = 3, calc_operation = Addition, calc_result = Some 8\<rparr>],
           list_objects = [[0]], execute_calls = 1, stdout = []\<rparr>)
   \<and> process_calculation exact_decimal (fst (Calculator_init (empty_world :: rat world))) ''5 + 3''
        (snd (Calculator_init empty_world))
       = (None,
          \<lparr>calculations =
             [\<lparr>calc_a = 5, calc_b = 3, calc_operation = Addition, calc_result = Some 8\<rparr>],
           list_objects = [[0]], execute_calls = 1, stdout = [''Result: 5 + 3 = 8'']\<rparr>)"
proof -
  let ?C = "fst (Calculator_init (empty_world :: rat world))"
  let ?W = "snd (Calculator_init (empty_world :: rat world))"
  have W: "?W = \<lparr>calculations = [], list_objects = [[]], execute_calls = 0, stdout = []\<rparr>"
    by (simp add: Calculator_init_def CalculationHistory_init_def new_list_def empty_world_def)
  have table: "operations ?C ''/'' = Some Division"
    by (simp add: Calculator_init_def CalculationHistory_init_def new_list_def)
  have operands: "Decimal exact_decimal ''5'' = Inr 5" "Decimal exact_decimal ''0'' = Inr 0"
    "eq_zero exact_decimal 0 = Inr True"
    by code_simp+
  have line: "split ''5 / 0'' = [''5'', ''/'', ''0'']" "lower ''/'' = ''/''"
    by code_simp+
  have succeeding:
    "calculate exact_decimal ?C 5 ''+'' 3 ?W
       = (Inr 8,
          \<lparr>calculations =
             [\<lparr>calc_a = 5, calc_b = 3, calc_operation = Addition, calc_result = Some 8\<rparr>],
           list_objects = [[0]], execute_calls = 1, stdout = []\<rparr>)"
    "process_calculation exact_decimal ?C ''5 + 3'' ?W
       = (None,
          \<lparr>calculations =
             [\<lparr>calc_a = 5, calc_b = 3, calc_operation = Addition, calc_result = Some 8\<rparr>],
           list_objects = [[0]], execute_calls = 1, stdout = [''Result: 5 + 3 = 8'']\<rparr>)"
    by code_simp+
  note failing = failed_calculation_is_not_recorded
        [of ?C "''/''" exact_decimal 0 5 ?W "''5 / 0''" "''5''" "''/''" "''0''"]
  note recorded = failed_calculation_is_not_recorded
        [of ?C "''+''" exact_decimal 3 5 ?W "''5 + 3''" "''5''" "''+''" "''3''"]
  have programmatic:
    "calculate exact_decimal ?C 5 ''/'' 0 ?W
       = (Inl (ValueError ''Cannot divide by zero''),
          \<lparr>calculations =
             [\<lparr>calc_a = 5, calc_b = 0, calc_operation = Division, calc_result = None\<rparr>],
           list_objects = [[]], execute_calls = 1, stdout = []\<rparr>)"
    using failing [THEN conjunct1] table operands by (simp add: W)
  have interactive:
    "process_calculation exact_decimal ?C ''5 / 0'' ?W
       = (None,
          \<lparr>calculations =
             [\<lparr>calc_a = 5, calc_b = 0, calc_operation = Division, calc_result = None\<rparr>],
           list_objects = [[]], execute_calls = 1,
           stdout = [''Error: Cannot divide by zero'']\<rparr>)"
    using failing [THEN conjunct2, THEN conjunct1] table operands line by (simp add: W)
  have "\<exists>v. fst (calculate exact_decimal ?C 5 ''+'' 3 ?W) = Inr v"
    using recorded [THEN conjunct2, THEN conjunct2, THEN conjunct1] succeeding(1) W by auto
  moreover have "\<exists>v::rat. fst (process_calculation exact_decimal ?C ''5 + 3'' ?W) = None
      \<and> calc_result (calculations (snd (process_calculation exact_decimal ?C ''5 + 3'' ?W)) ! 0)
          = Some v"
    using recorded [THEN conjunct2, THEN conjunct2, THEN conjunct2] succeeding(2) W by auto
  ultimately show ?thesis
    using table operands line W programmatic interactive succeeding by simp
qed

text \<open>Lowercasing and splitting, for the lookup of the operation token.\<close>

lemma lower_char_idem: "lower_char (lower_char c) = lower_char c"
  unfolding lower_char_def isupper_def Let_def by auto

lemma lower_idem: "lower (lower s) = lower s"
  by (simp add: lower_def lower_char_idem)

lemma isspace_lower_char: "isspace (lower_char c) = isspace c"
  unfolding lower_char_def isupper_def isspace_def Let_def by auto

lemma is_word_lower: "is_word s \<Longrightarrow> is_word (lower s)"
  by (simp add: is_word_def lower_def list_all_iff isspace_lower_char)

lemma split_from_word:
  "list_all (\<lambda>c. \<not> isspace c) u \<Longrightarrow> split_from word (u @ rest) = split_from (word @ u) rest"
  by (induction u arbitrary: word) simp_all

lemma isspace_blank: "isspace (CHR '' '')"
  by (simp add: isspace_def)

lemma split_three_words:
  assumes "is_word s0" and "is_word s1" and "is_word s2"
  shows "split (s0 @ '' '' @ s1 @ '' '' @ s2) = [s0, s1, s2]"
proof -
  have "split (s0 @ '' '' @ s1 @ '' '' @ s2) = split_from s0 ('' '' @ s1 @ '' '' @ s2)"
    using assms(1) split_from_word [of s0 "[]"] by (simp add: split_def is_word_def)
  also have "\<dots> = s0 # split_from [] (s1 @ '' '' @ s2)"
    using assms(1) by (simp add: is_word_def isspace_blank)
  also have "split_from [] (s1 @ '' '' @ s2) = split_from s1 ('' '' @ s2)"
    using assms(2) split_from_word [of s1 "[]"] by (simp add: is_word_def)
  also have "\<dots> = s1 # split_from [] s2"
    using assms(2) by (simp add: is_word_def isspace_blank)
  also have "split_from [] s2 = [s2]"
    using assms(3) split_from_word [of s2 "[]" "[]"] by (simp add: is_word_def)
  finally show ?thesis by simp
qed

lemma process_calculation_parts:
  assumes "split u = [s0, s1, s2]" and "split u' = [s0, s1', s2]" and "lower s1' = lower s1"
  shows "process_calculation D self u w = process_calculation D self u' w"
  using assms by (simp add: process_calculation_def Let_def)

lemma table_keys:
  assumes "Calculator_init w0 = (self, w1)" and "operations self token \<noteq> None"
  shows "token \<in> {''+'', ''-'', ''*'', ''/'', ''add'', ''subtract'', ''multiply'', ''divide''}"
  using assms
  by (auto simp: Calculator_init_def CalculationHistory_init_def new_list_def split: if_splits)

lemma keys_have_no_capital:
  assumes "token \<in> {''+'', ''-'', ''*'', ''/'', ''add'', ''subtract'', ''multiply'', ''divide''}"
    and "c \<in> set token"
  shows "\<not> isupper c"
proof -
  have "\<forall>k \<in> set [''+'', ''-'', ''*'', ''/'', ''add'', ''subtract'', ''multiply'', ''divide''].
          list_all (\<lambda>c. \<not> isupper c) k"
    by (simp add: isupper_def)
  with assms show ?thesis
    by (simp only: list_all_iff set_simps) blast
qed

text \<open>
  Claim C9. \<^verbatim>\<open>Calculator.calculate\<close> looks its token up as given: on a calculator made
  by \<^verbatim>\<open>Calculator()\<close>, every token that contains an uppercase letter (\<^verbatim>\<open>ADD\<close>,
  \<^verbatim>\<open>Divide\<close>) raises \<^verbatim>\<open>ValueError("Unknown operation: <token>")\<close> and leaves the world,
  hence the history, unchanged. \<^verbatim>\<open>_process_calculation\<close> lowercases the token first: a
  line of three words behaves exactly as the line with its operation word in lower case.
\<close>

theorem calculate_is_case_sensitive:
  "(Calculator_init w0 = (self, w1) \<and> (\<exists>c \<in> set token. isupper c) \<longrightarrow>
      calculate D self x token y w = (Inl (ValueError (''Unknown operation: '' @ token)), w))
   \<and> (is_word s0 \<and> is_word token \<and> is_word s2 \<longrightarrow>
      process_calculation D self (s0 @ '' '' @ token @ '' '' @ s2) w
        = process_calculation D self (s0 @ '' '' @ lower token @ '' '' @ s2) w)"
proof (intro conjI impI)
  assume h: "Calculator_init w0 = (self, w1) \<and> (\<exists>c \<in> set token. isupper c)"
  have "operations self token = None"
  proof (rule ccontr)
    assume "operations self token \<noteq> None"
    with h have key: "token \<in> {''+'', ''-'', ''*'', ''/'', ''add'', ''subtract'', ''multiply'', ''divide''}"
      by (intro table_keys [of w0 self w1]) simp_all
    from h obtain c where c: "c \<in> set token" and capital: "isupper c"
      by (elim conjE bexE)
    from key c have "\<not> isupper c"
      by (rule keys_have_no_capital)
    with capital show False by simp
  qed
  then show "calculate D self x token y w = (Inl (ValueError (''Unknown operation: '' @ token)), w)"
    by (rule calculate_unknown)
next
  assume h: "is_word s0 \<and> is_word token \<and> is_word s2"
  then have "split (s0 @ '' '' @ token @ '' '' @ s2) = [s0, token, s2]"
    by (intro split_three_words) simp_all
  moreover from h have "split (s0 @ '' '' @ lower token @ '' '' @ s2) = [s0, lower token, s2]"
    by (intro split_three_words) (simp_all add: is_word_lower)
  ultimately show "process_calculation D self (s0 @ '' '' @ token @ '' '' @ s2) w
        = process_calculation D self (s0 @ '' '' @ lower token @ '' '' @ s2) w"
    by (rule process_calculation_parts) (simp add: lower_idem)
qed

theorem calculate_is_case_sensitive_witness:
  "isupper (CHR ''A'') \<and> CHR ''A'' \<in> set ''ADD''
   \<and> is_word ''5'' \<and> is_word ''ADD'' \<and> is_word ''3''
   \<and> lower ''ADD'' = ''add''
   \<and> snd (Calculator_init (empty_world :: rat world))
       = \<lparr>calculations = [], list_objects = [[]], execute_calls = 0, stdout = []\<rparr>
   \<and> calculate exact_decimal (fst (Calculator_init (empty_world :: rat world))) 5 ''ADD'' 3
        (snd (Calculator_init empty_world))
       = (Inl (ValueError ''Unknown operation: ADD''),
          \<lparr>calculations = [], list_objects = [[]], execute_calls = 0, stdout = []\<rparr>)
   \<and> process_calculation exact_decimal (fst (Calculator_init (empty_world :: rat world)))
        ''5 ADD 3'' (snd (Calculator_init empty_world))
       = process_calculation exact_decimal (fst (Calculator_init (empty_world :: rat world)))
        ''5 add 3'' (snd (Calculator_init empty_world))
   \<and> process_calculation exact_decimal (fst (Calculator_init (empty_world :: rat world)))
        ''5 ADD 3'' (snd (Calculator_init empty_world))
       = (None,
          \<lparr>calculations =
             [\<lparr>calc_a = 5, calc_b = 3, calc_operation = Addition, calc_result = Some 8\<rparr>],
           list_objects = [[0]], execute_calls = 1, stdout = [''Result: 5 + 3 = 8'']\<rparr>)"
proof -
  let ?C = "fst (Calculator_init (empty_world :: rat world))"
  let ?W = "snd (Calculator_init (empty_world :: rat world))"
  have W: "?W = \<lparr>calculations = [], list_objects = [[]], execute_calls = 0, stdout = []\<rparr>"
    by (simp add: Calculator_init_def CalculationHistory_init_def new_list_def empty_world_def)
  have made: "Calculator_init (empty_world :: rat world) = (?C, ?W)"
    by simp
  have capital: "isupper (CHR ''A'')" "CHR ''A'' \<in> set ''ADD''"
    by (simp_all add: isupper_def)
  have words: "is_word ''5''" "is_word ''ADD''" "is_word ''3''"
    by (simp_all add: is_word_def isspace_def)
  have lowered: "lower ''ADD'' = ''add''"
    by code_simp
  have interactive:
    "process_calculation exact_decimal ?C ''5 add 3'' ?W
       = (None,
          \<lparr>calculations =
             [\<lparr>calc_a = 5, calc_b = 3, calc_operation = Addition, calc_result = Some 8\<rparr>],
           list_objects = [[0]], execute_calls = 1, stdout = [''Result: 5 + 3 = 8'']\<rparr>)"
    by code_simp
  note sensitive = calculate_is_case_sensitive
      [of empty_world ?C ?W "''ADD''" exact_decimal 5 3 ?W "''5''" "''3''"]
  have programmatic:
    "calculate exact_decimal ?C 5 ''ADD'' 3 ?W = (Inl (ValueError ''Unknown operation: ADD''), ?W)"
    using sensitive [THEN conjunct1] made capital by auto
  have same:
    "process_calculation exact_decimal ?C ''5 ADD 3'' ?W
       = process_calculation exact_decimal ?C ''5 add 3'' ?W"
    using sensitive [THEN conjunct2] words lowered by simp
  show ?thesis
    using capital words lowered W programmatic same interactive by simp
qed

end
